theory Spec2Isabelle
  imports Complex_Main
begin

section \<open>IndeterminateBeam: a shallow embedding of the beam, support and load classes\<close>

text \<open>
  The development follows two source files.
  \<^item> \<^verbatim>\<open>indeterminatebeam/indeterminatebeam.py\<close>: the classes \<^verbatim>\<open>Support\<close>, \<^verbatim>\<open>PointLoad\<close>,
    \<^verbatim>\<open>PointTorque\<close> and \<^verbatim>\<open>Beam\<close> with its mutators, \<^verbatim>\<open>analyse\<close>, \<^verbatim>\<open>get_reaction\<close> and the
    query-point methods.
  \<^item> \<^verbatim>\<open>indeterminatebeam/loading.py\<close>: the load classes that carry \<^verbatim>\<open>_x0\<close>, \<^verbatim>\<open>_y0\<close>,
    \<^verbatim>\<open>_x1\<close>, \<^verbatim>\<open>_y1\<close> and \<^verbatim>\<open>_m0\<close>. Both modules declare classes of the same names; the
    constants of \<^verbatim>\<open>loading.py\<close> carry the prefix \<open>loading_\<close> here.

  Conventions of the embedding.
  \<^item> Python numbers (int and float) are idealised as \<open>real\<close>; \<^verbatim>\<open>math.radians\<close>, \<^verbatim>\<open>sin\<close>
    and \<^verbatim>\<open>cos\<close> are the real functions. Arguments are numbers by their type, so the
    \<^verbatim>\<open>TypeError\<close> of a non-numeric argument has no counterpart.
  \<^item> An exception is a value: constructors return \<open>error + 'a\<close>, methods of \<^verbatim>\<open>Beam\<close>
    return an \<open>outcome\<close> together with the beam as the call leaves it (Python mutates
    the beam in place, so what was done before a \<^verbatim>\<open>raise\<close> stays done).
  \<^item> An attribute \<^verbatim>\<open>_name\<close> is the record field \<open>name\<close>, with a prefix where two classes
    share the name.
  \<^item> A Python object is a pair of its reference and its attributes. The classes define
    no \<^verbatim>\<open>__eq__\<close>, so \<^verbatim>\<open>==\<close>, \<^verbatim>\<open>in\<close> and \<^verbatim>\<open>list.remove\<close> compare objects by identity,
    which is equality of references.
\<close>

subsection \<open>Errors and outcomes\<close>

datatype error = ValueError | TypeError | AttributeError

datatype 'a outcome = Return 'a | Raise error

text \<open>What a method hands back: \<^verbatim>\<open>None\<close>, a list of numbers, a number, or an exception
  object that is returned instead of raised.\<close>

datatype pyval = PyNone | PyList "real list" | PyNum real | PyErr error

type_synonym 'a obj = "nat \<times> 'a"

subsection \<open>Input validation (module \<^verbatim>\<open>data_validation\<close>)\<close>

text \<open>Modelled from the spec: the module \<^verbatim>\<open>data_validation\<close> is imported by both source
  files and is not part of the sources at hand. The spec's validation errors are a
  negative coordinate (\<^verbatim>\<open>assert_positive_number\<close>) and a zero or negative span, length or
  section property (\<^verbatim>\<open>assert_strictly_positive_number\<close>). \<open>None\<close> means the check passes.\<close>

definition assert_positive_number :: "real \<Rightarrow> error option" where
  "assert_positive_number v = (if v < 0 then Some ValueError else None)"

definition assert_strictly_positive_number :: "real \<Rightarrow> error option" where
  "assert_strictly_positive_number v = (if v \<le> 0 then Some ValueError else None)"

subsection \<open>Symbolic expressions in the beam coordinate\<close>

text \<open>A sympy expression is a sum of terms \<open>c * SingularityFunction(x, a, n)\<close> and
  \<open>c * x ** k\<close>; the empty sum is the Python \<^verbatim>\<open>0\<close>.\<close>

datatype basis = SingularityFunction real int | XPow nat

type_synonym expr = "(real \<times> basis) list"

definition scale :: "real \<Rightarrow> expr \<Rightarrow> expr" where
  "scale k e = map (\<lambda>(c, b). (k * c, b)) e"

fun integrate_term :: "real \<times> basis \<Rightarrow> real \<times> basis" where
  "integrate_term (c, SingularityFunction a n) =
     (if n < 0 then (c, SingularityFunction a (n + 1))
      else (c / (of_int n + 1), SingularityFunction a (n + 1)))"
| "integrate_term (c, XPow k) = (c / (of_nat k + 1), XPow (Suc k))"

text \<open>\<^verbatim>\<open>integrate(e, x)\<close>: the antiderivative, term by term, with no constant.\<close>

definition integrate :: "expr \<Rightarrow> expr" where
  "integrate e = map integrate_term e"

text \<open>Polynomials in \<open>x\<close> by their coefficients, lowest degree first: the expressions a
  \<^verbatim>\<open>DistributedLoad\<close> is given.\<close>

type_synonym poly = "real list"

definition poly_scale :: "real \<Rightarrow> poly \<Rightarrow> poly" where
  "poly_scale k p = map (\<lambda>c. k * c) p"

definition poly_mul_x :: "poly \<Rightarrow> poly" where
  "poly_mul_x p = 0 # p"

fun poly_eval :: "poly \<Rightarrow> real \<Rightarrow> real" where
  "poly_eval [] t = 0"
| "poly_eval (c # cs) t = c + t * poly_eval cs t"

fun poly_integrate_from :: "nat \<Rightarrow> poly \<Rightarrow> poly" where
  "poly_integrate_from k [] = []"
| "poly_integrate_from k (c # cs) = c / (of_nat k + 1) # poly_integrate_from (Suc k) cs"

definition poly_integrate :: "poly \<Rightarrow> poly" where
  "poly_integrate p = 0 # poly_integrate_from 0 p"

text \<open>\<^verbatim>\<open>integrate(p, (x, lo, hi))\<close>.\<close>

definition poly_definite :: "poly \<Rightarrow> real \<Rightarrow> real \<Rightarrow> real" where
  "poly_definite p lo hi = poly_eval (poly_integrate p) hi - poly_eval (poly_integrate p) lo"

fun expr_of_poly_from :: "nat \<Rightarrow> poly \<Rightarrow> expr" where
  "expr_of_poly_from k [] = []"
| "expr_of_poly_from k (c # cs) = (c, XPow k) # expr_of_poly_from (Suc k) cs"

definition expr_of_poly :: "poly \<Rightarrow> expr" where
  "expr_of_poly p = expr_of_poly_from 0 p"

subsection \<open>Angles and rounding\<close>

definition radians :: "real \<Rightarrow> real" where
  "radians d = d * pi / 180"

text \<open>Python's \<^verbatim>\<open>round\<close> to the nearest integer, a tie going to the even neighbour.\<close>

definition round_half_even :: "real \<Rightarrow> int" where
  "round_half_even v =
     (let f = \<lfloor>v\<rfloor>; d = v - of_int f
      in if d < 1 / 2 then f else if 1 / 2 < d then f + 1 else if even f then f else f + 1)"

text \<open>\<^verbatim>\<open>round(v, d)\<close>.\<close>

definition py_round :: "real \<Rightarrow> nat \<Rightarrow> real" where
  "py_round v d = of_int (round_half_even (v * 10 ^ d)) / 10 ^ d"

subsection \<open>\<^verbatim>\<open>Support\<close> (indeterminatebeam.py, lines 38-143)\<close>

text \<open>A stiffness is \<^verbatim>\<open>0\<close> (free), sympy's \<^verbatim>\<open>oo\<close> (rigid) or the number given as \<^verbatim>\<open>kx\<close> or
  \<^verbatim>\<open>ky\<close>.\<close>

datatype num = Num real | Oo

text \<open>\<^verbatim>\<open>_stiffness\<close>, \<^verbatim>\<open>_DOF\<close> and \<^verbatim>\<open>_fixed\<close> are lists of length 3 in the source (the
  constructor refuses any other length): triples here, in the order x, y, m.\<close>

record support =
  s_position :: real
  s_stiffness :: "num \<times> num \<times> num"
  s_DOF :: "int \<times> int \<times> int"
  s_fixed :: "int \<times> int \<times> int"
  s_id :: "nat option"

text \<open>\<^verbatim>\<open>if kx:\<close> is the truth value of the argument: \<^verbatim>\<open>None\<close> and \<^verbatim>\<open>0\<close> are false.\<close>

fun truthy :: "real option \<Rightarrow> bool" where
  "truthy None = False"
| "truthy (Some k) = (k \<noteq> 0)"

text \<open>Lines 98-101: \<^verbatim>\<open>if kx: assert_positive_number(kx, 'kx')\<close>.\<close>

fun check_stiffness :: "real option \<Rightarrow> error option" where
  "check_stiffness None = None"
| "check_stiffness (Some k) = (if k \<noteq> 0 then assert_positive_number k else None)"

text \<open>Lines 116-122: \<^verbatim>\<open>oo if a else 0\<close>, overridden by a true \<^verbatim>\<open>kx\<close> or \<^verbatim>\<open>ky\<close>.\<close>

fun stiffness_of :: "real \<Rightarrow> real option \<Rightarrow> num" where
  "stiffness_of a None = (if a \<noteq> 0 then Oo else Num 0)"
| "stiffness_of a (Some k) = (if k \<noteq> 0 then Num k else if a \<noteq> 0 then Oo else Num 0)"

text \<open>\<^verbatim>\<open>int(bool(e))\<close> and \<^verbatim>\<open>int(bool(e)) if e == oo else 0\<close>.\<close>

definition dof_of :: "num \<Rightarrow> int" where
  "dof_of e = (if e = Num 0 then 0 else 1)"

definition fixed_of :: "num \<Rightarrow> int" where
  "fixed_of e = (if e = Oo then 1 else 0)"

definition map_triple :: "('a \<Rightarrow> 'b) \<Rightarrow> 'a \<times> 'a \<times> 'a \<Rightarrow> 'b \<times> 'b \<times> 'b" where
  "map_triple f t = (case t of (a, b, c) \<Rightarrow> (f a, f b, f c))"

text \<open>The constructor, lines 74-130. The entries of \<^verbatim>\<open>fixed\<close> are read only after the
  length check has passed, so \<open>fixed ! 0\<close>, \<open>fixed ! 1\<close> and \<open>fixed ! 2\<close> are in range.\<close>

definition Support :: "real \<Rightarrow> real list \<Rightarrow> real option \<Rightarrow> real option \<Rightarrow> error + support" where
  "Support coord fixed kx ky =
     (case assert_positive_number coord of Some e \<Rightarrow> Inl e | None \<Rightarrow>
     (case check_stiffness kx of Some e \<Rightarrow> Inl e | None \<Rightarrow>
     (case check_stiffness ky of Some e \<Rightarrow> Inl e | None \<Rightarrow>
      if list_ex (\<lambda>a. a \<noteq> 0 \<and> a \<noteq> 1) fixed then Inl ValueError
      else if length fixed \<noteq> 3 then Inl ValueError
      else
        (let st = (stiffness_of (fixed ! 0) kx, stiffness_of (fixed ! 1) ky,
                   stiffness_of (fixed ! 2) None)
         in Inr \<lparr> s_position = coord,
                  s_stiffness = st,
                  s_DOF = map_triple dof_of st,
                  s_fixed = map_triple fixed_of st,
                  s_id = None \<rparr>))))"

subsection \<open>The load classes of \<^verbatim>\<open>loading.py\<close>\<close>

text \<open>What a load object holds: \<^verbatim>\<open>_x0\<close> and \<^verbatim>\<open>_y0\<close> (axial and transverse intensity),
  \<^verbatim>\<open>_x1\<close> and \<^verbatim>\<open>_y1\<close> (their antiderivatives), \<^verbatim>\<open>_m0\<close> (moment about \<open>x = 0\<close>), and the
  arguments each class keeps (\<^verbatim>\<open>position\<close>, \<^verbatim>\<open>span\<close>, \<^verbatim>\<open>force\<close>, \<^verbatim>\<open>angle\<close>, \<^verbatim>\<open>expr\<close>).\<close>

datatype load_attributes =
    PointTorque_attrs real real
  | PointLoad_attrs real real real
  | UDL_attrs expr "real \<times> real" real real
  | TrapezoidalLoad_attrs expr "real \<times> real" "real \<times> real" real
  | DistributedLoad_attrs "real \<times> real" poly real

record loading_load =
  load_x0 :: expr
  load_y0 :: expr
  load_x1 :: expr
  load_y1 :: expr
  load_m0 :: real
  load_attrs :: load_attributes

text \<open>\<^verbatim>\<open>Load._add_load_functions\<close> (lines 17-38): the four functions it stores, in the order
  \<^verbatim>\<open>_x0\<close>, \<^verbatim>\<open>_y0\<close>, \<^verbatim>\<open>_x1\<close>, \<^verbatim>\<open>_y1\<close>.\<close>

definition add_load_functions :: "real \<Rightarrow> expr \<Rightarrow> expr \<times> expr \<times> expr \<times> expr" where
  "add_load_functions angle e =
     (let force_x = cos (radians angle);
          force_y = sin (radians angle);
          x0 = (if \<bar>py_round force_x 8\<bar> > 0 then scale force_x e else []);
          y0 = (if \<bar>py_round force_y 8\<bar> > 0 then scale force_y e else [])
      in (x0, y0, integrate x0, integrate y0))"

definition make_load :: "expr \<times> expr \<times> expr \<times> expr \<Rightarrow> real \<Rightarrow> load_attributes \<Rightarrow> loading_load" where
  "make_load fs m0 attrs =
     (case fs of (x0, y0, x1, y1) \<Rightarrow>
        \<lparr> load_x0 = x0, load_y0 = y0, load_x1 = x1, load_y1 = y1, load_m0 = m0, load_attrs = attrs \<rparr>)"

text \<open>The span checks every distributed class makes: \<^verbatim>\<open>assert_positive_number(span[0])\<close>,
  then \<^verbatim>\<open>assert_strictly_positive_number(span[1] - span[0])\<close>.\<close>

definition check_span :: "real \<times> real \<Rightarrow> error option" where
  "check_span span' =
     (case assert_positive_number (fst span') of Some e \<Rightarrow> Some e
      | None \<Rightarrow> assert_strictly_positive_number (snd span' - fst span'))"

text \<open>\<^verbatim>\<open>PointTorque\<close> (lines 57-76) and \<^verbatim>\<open>PointLoad\<close> (lines 104-124).\<close>

definition loading_PointTorque :: "real \<Rightarrow> real \<Rightarrow> error + loading_load" where
  "loading_PointTorque force coord =
     (case assert_positive_number coord of Some e \<Rightarrow> Inl e
      | None \<Rightarrow>
          (let expr = [(force, SingularityFunction coord (- 1))]
           in Inr (make_load (add_load_functions 90 expr) force (PointTorque_attrs coord force))))"

definition loading_PointLoad :: "real \<Rightarrow> real \<Rightarrow> real \<Rightarrow> error + loading_load" where
  "loading_PointLoad force coord angle =
     (case assert_positive_number coord of Some e \<Rightarrow> Inl e
      | None \<Rightarrow>
          (let expr = [(force, SingularityFunction coord (- 1))];
               force_y = sin (radians angle)
           in Inr (make_load (add_load_functions angle expr) (force * coord * force_y)
                     (PointLoad_attrs coord force angle))))"

text \<open>\<^verbatim>\<open>UDL\<close> (lines 148-185): \<^verbatim>\<open>force * (SingularityFunction(x, span[0], 0)
  - SingularityFunction(x, span[1], 0))\<close>.\<close>

definition loading_UDL :: "real \<Rightarrow> real \<times> real \<Rightarrow> real \<Rightarrow> error + loading_load" where
  "loading_UDL force span' angle =
     (case check_span span' of Some e \<Rightarrow> Inl e
      | None \<Rightarrow>
          (let expr = scale force [(1, SingularityFunction (fst span') 0),
                                   (- 1, SingularityFunction (snd span') 0)];
               xa = fst span';
               length' = snd span' - fst span';
               force_y = sin (radians angle)
           in Inr (make_load (add_load_functions angle expr)
                     (force * length' * (xa + length' / 2) * force_y)
                     (UDL_attrs expr span' force angle))))"

text \<open>\<^verbatim>\<open>TrapezoidalLoad\<close> (lines 210-271): a rectangle of height \<^verbatim>\<open>force[0]\<close> plus, when the
  two ends differ, a triangle.\<close>

definition loading_TrapezoidalLoad ::
  "real \<times> real \<Rightarrow> real \<times> real \<Rightarrow> real \<Rightarrow> error + loading_load" where
  "loading_TrapezoidalLoad force span' angle =
     (case check_span span' of Some e \<Rightarrow> Inl e
      | None \<Rightarrow>
          (let xa = fst span'; xb = snd span';
               b = snd force - fst force;
               length' = xb - xa;
               UDL_component = scale (fst force) [(1, SingularityFunction (fst span') 0),
                                                  (- 1, SingularityFunction (snd span') 0)];
               triangular_component =
                 (if fst force \<noteq> snd force then
                    (let slope = b / (snd span' - fst span')
                     in [(slope, SingularityFunction xa 1),
                         (- b, SingularityFunction xb 0),
                         (- slope, SingularityFunction xb 1)])
                  else []);
               expr = triangular_component @ UDL_component;
               UDL_m0 = (fst force * length') * (xa + length' / 2);
               triangle_m0 = (b * length' / 2) * (xa + length' * 2 / 3);
               force_y = sin (radians angle)
           in Inr (make_load (add_load_functions angle expr)
                     ((UDL_m0 + triangle_m0) * force_y)
                     (TrapezoidalLoad_attrs expr span' force angle))))"

text \<open>\<^verbatim>\<open>DistributedLoad\<close> (lines 297-324). The expression is a polynomial in \<open>x\<close>, given by
  its coefficients. \<open>y0\<close> is \<^verbatim>\<open>_y0\<close> as a polynomial, by the same test as in
  \<^verbatim>\<open>_add_load_functions\<close>; line 319 is
  \<^verbatim>\<open>self._m0 = integrate(self._y0 * x, (x, 0, span[1]))\<close>.\<close>

definition loading_DistributedLoad :: "poly \<Rightarrow> real \<times> real \<Rightarrow> real \<Rightarrow> error + loading_load" where
  "loading_DistributedLoad p span' angle =
     (case check_span span' of Some e \<Rightarrow> Inl e
      | None \<Rightarrow>
          (let force_y = sin (radians angle);
               y0 = (if \<bar>py_round force_y 8\<bar> > 0 then poly_scale force_y p else [])
           in Inr (make_load (add_load_functions angle (expr_of_poly p))
                     (poly_definite (poly_mul_x y0) 0 (snd span'))
                     (DistributedLoad_attrs span' p angle))))"

text \<open>The moment about \<open>x = 0\<close> as the specification words it: the integral of
  \<open>w_y(x) * x\<close> over the span \<open>[a, b]\<close> of the load, for \<open>w_y(x) = f(x) * sin(angle)\<close>.\<close>

definition m0_spec_DistributedLoad :: "poly \<Rightarrow> real \<times> real \<Rightarrow> real \<Rightarrow> real" where
  "m0_spec_DistributedLoad p span' angle =
     poly_definite (poly_mul_x (poly_scale (sin (radians angle)) p)) (fst span') (snd span')"

subsection \<open>The load classes of \<^verbatim>\<open>indeterminatebeam.py\<close> (lines 145-357)\<close>

text \<open>The classes \<^verbatim>\<open>Beam\<close> works with are declared in \<^verbatim>\<open>indeterminatebeam.py\<close> itself. Each
  is a plain class whose constructor stores two attributes, \<^verbatim>\<open>_x\<close> and \<^verbatim>\<open>_y\<close>, and defines
  no \<^verbatim>\<open>__iter__\<close>, \<^verbatim>\<open>__getitem__\<close> or \<^verbatim>\<open>__eq__\<close>. The class is kept as a tag, for the
  \<^verbatim>\<open>isinstance\<close> tests of \<^verbatim>\<open>add_loads\<close>. The constructors of \<^verbatim>\<open>PointTorque\<close> and
  \<^verbatim>\<open>PointLoad\<close> are embedded. Those of \<^verbatim>\<open>DistributedLoad\<close>, \<^verbatim>\<open>UDL\<close> and \<^verbatim>\<open>TrapezoidalLoad\<close> are
  not: each has a validation line with no comma between its two arguments (lines 259,
  292, 327), which Python does not parse, and \<^verbatim>\<open>TrapezoidalLoad.__init__\<close> returns a
  \<^verbatim>\<open>UDL\<close> for equal end values (line 322), which \<^verbatim>\<open>__init__\<close> may not. Objects of these
  classes appear as records with the class tag.\<close>

datatype load_class =
    PointTorque_class | PointLoad_class | PointLoadV_class | PointLoadH_class
  | DistributedLoad_class | DistributedLoadV_class | DistributedLoadH_class
  | UDL_class | TrapezoidalLoad_class

record load =
  cls :: load_class
  load_x :: expr
  load_y :: expr

text \<open>\<^verbatim>\<open>PointTorque.__init__\<close> (lines 163-168).\<close>

definition PointTorque :: "real \<Rightarrow> real \<Rightarrow> error + load" where
  "PointTorque torque coord =
     (case assert_positive_number coord of Some e \<Rightarrow> Inl e
      | None \<Rightarrow> Inr \<lparr> cls = PointTorque_class, load_x = [],
                       load_y = [(torque, SingularityFunction coord (- 1))] \<rparr>)"

text \<open>\<^verbatim>\<open>PointLoad.__init__\<close> (lines 196-212); \<^verbatim>\<open>PointLoadV\<close> and \<^verbatim>\<open>PointLoadH\<close> call it with
  the angles 90 and 0 (lines 214-220), so the class of the new object is a parameter.\<close>

definition PointLoad_init :: "load_class \<Rightarrow> real \<Rightarrow> real \<Rightarrow> real \<Rightarrow> error + load" where
  "PointLoad_init c force coord angle =
     (case assert_positive_number coord of Some e \<Rightarrow> Inl e
      | None \<Rightarrow>
          (let force_x = force * cos (radians angle);
               force_y = force * sin (radians angle)
           in Inr \<lparr> cls = c,
                    load_x = (if \<bar>py_round force_x 5\<bar> > 0
                              then [(force_x, SingularityFunction coord (- 1))] else []),
                    load_y = (if \<bar>py_round force_y 5\<bar> > 0
                              then [(force_y, SingularityFunction coord (- 1))] else []) \<rparr>))"

definition PointLoad :: "real \<Rightarrow> real \<Rightarrow> real \<Rightarrow> error + load" where
  "PointLoad force coord angle = PointLoad_init PointLoad_class force coord angle"

definition PointLoadV :: "real \<Rightarrow> real \<Rightarrow> error + load" where
  "PointLoadV force coord = PointLoad_init PointLoadV_class force coord 90"

definition PointLoadH :: "real \<Rightarrow> real \<Rightarrow> error + load" where
  "PointLoadH force coord = PointLoad_init PointLoadH_class force coord 0"

subsection \<open>Objects and identity\<close>

text \<open>\<^verbatim>\<open>x in xs\<close> and \<^verbatim>\<open>xs.remove(x)\<close> for objects of a class without \<^verbatim>\<open>__eq__\<close>: the test is
  \<^verbatim>\<open>y is x or y == x\<close>, and \<^verbatim>\<open>==\<close> falls back to identity. \<^verbatim>\<open>remove\<close> deletes the first
  match; both callers test \<^verbatim>\<open>in\<close> first, so its \<^verbatim>\<open>ValueError\<close> for a missing element
  cannot arise and the list is returned as it is.\<close>

definition obj_in :: "'a obj \<Rightarrow> 'a obj list \<Rightarrow> bool" where
  "obj_in x xs = (fst x \<in> set (map fst xs))"

fun obj_remove :: "'a obj \<Rightarrow> 'a obj list \<Rightarrow> 'a obj list" where
  "obj_remove x [] = []"
| "obj_remove x (y # ys) = (if fst y = fst x then ys else y # obj_remove x ys)"

subsection \<open>\<^verbatim>\<open>Beam\<close> (lines 360-460)\<close>

text \<open>\<^verbatim>\<open>_normal_forces\<close>, \<^verbatim>\<open>_shear_forces\<close> and \<^verbatim>\<open>_bending_moments\<close> start as empty lists
  and \<^verbatim>\<open>_reactions\<close>, \<^verbatim>\<open>_distributed_forces_x\<close> and \<^verbatim>\<open>_distributed_forces_y\<close> as empty
  dictionaries. A value of \<^verbatim>\<open>_reactions\<close> is the list \<^verbatim>\<open>[x, y, m]\<close>, a triple here.\<close>

record beam =
  beam_x0 :: real
  beam_x1 :: real
  loads :: "load obj list"
  distributed_forces_x :: "(nat \<times> expr list) list"
  distributed_forces_y :: "(nat \<times> expr list) list"
  normal_forces :: "expr list"
  shear_forces :: "expr list"
  bending_moments :: "expr list"
  query :: "real list"
  supports :: "support obj list"
  reactions :: "real \<rightharpoonup> real \<times> real \<times> real"
  beam_E :: real
  beam_I :: real
  beam_A :: real

definition Beam :: "real \<Rightarrow> real \<Rightarrow> real \<Rightarrow> real \<Rightarrow> error + beam" where
  "Beam span' E I A =
     (case assert_strictly_positive_number span' of Some e \<Rightarrow> Inl e | None \<Rightarrow>
     (case assert_strictly_positive_number E of Some e \<Rightarrow> Inl e | None \<Rightarrow>
     (case assert_strictly_positive_number I of Some e \<Rightarrow> Inl e | None \<Rightarrow>
     (case assert_strictly_positive_number A of Some e \<Rightarrow> Inl e | None \<Rightarrow>
        Inr \<lparr> beam_x0 = 0, beam_x1 = span', loads = [],
              distributed_forces_x = [], distributed_forces_y = [],
              normal_forces = [], shear_forces = [], bending_moments = [],
              query = [], supports = [], reactions = Map.empty,
              beam_E = E, beam_I = I, beam_A = A \<rparr>))))"

text \<open>The default section of the constructor: \<^verbatim>\<open>E=2 * 10**5, I=9.05 * 10**6, A=2300\<close>.\<close>

definition Beam_default :: "real \<Rightarrow> error + beam" where
  "Beam_default span' = Beam span' (2 * 10 ^ 5) (905 / 100 * 10 ^ 6) 2300"

subsection \<open>\<^verbatim>\<open>add_loads\<close> and \<^verbatim>\<open>remove_loads\<close> (lines 462-527)\<close>

definition is_distributed :: "load_class \<Rightarrow> bool" where
  "is_distributed c = (c \<in> {DistributedLoad_class, DistributedLoadV_class,
     DistributedLoadH_class, UDL_class, TrapezoidalLoad_class})"

definition is_point :: "load_class \<Rightarrow> bool" where
  "is_point c = (c \<in> {PointTorque_class, PointLoad_class, PointLoadV_class, PointLoadH_class})"

text \<open>For a distributed load, line 480 unpacks the object, \<^verbatim>\<open>left, right = load\<close>, and for a
  point load or torque line 488 subscripts it, \<^verbatim>\<open>coordinate = load[1]\<close>. The load classes
  define neither \<^verbatim>\<open>__iter__\<close> nor \<^verbatim>\<open>__getitem__\<close>, so either statement raises \<^verbatim>\<open>TypeError\<close>
  before the bounds are compared and before line 494 appends the load. An object of any
  other class would be appended with no check.\<close>

fun add_loads :: "beam \<Rightarrow> load obj list \<Rightarrow> pyval outcome \<times> beam" where
  "add_loads b [] = (Return PyNone, b)"
| "add_loads b (ld # rest) =
     (if is_distributed (cls (snd ld)) then (Raise TypeError, b)
      else if is_point (cls (snd ld)) then (Raise TypeError, b)
      else add_loads (b\<lparr>loads := loads b @ [ld]\<rparr>) rest)"

fun remove_loads_each :: "load obj list \<Rightarrow> load obj list \<Rightarrow> load obj list" where
  "remove_loads_each ls [] = ls"
| "remove_loads_each ls (ld # rest) =
     remove_loads_each (if obj_in ld ls then obj_remove ld ls else ls) rest"

definition remove_loads :: "beam \<Rightarrow> load obj list \<Rightarrow> bool \<Rightarrow> pyval outcome \<times> beam" where
  "remove_loads b lds remove_all =
     (if remove_all then (Return PyNone, b\<lparr>loads := []\<rparr>)
      else (Return PyNone, b\<lparr>loads := remove_loads_each (loads b) lds\<rparr>))"

subsection \<open>\<^verbatim>\<open>add_supports\<close> and \<^verbatim>\<open>remove_supports\<close> (lines 529-587)\<close>

fun add_supports :: "beam \<Rightarrow> support obj list \<Rightarrow> pyval outcome \<times> beam" where
  "add_supports b [] = (Return PyNone, b)"
| "add_supports b (s # rest) =
     (if beam_x0 b > s_position (snd s) \<or> s_position (snd s) > beam_x1 b
      then (Raise ValueError, b)
      else if supports b = [] then add_supports (b\<lparr>supports := supports b @ [s]\<rparr>) rest
      else if s_position (snd s) \<notin> set (map (\<lambda>x. s_position (snd x)) (supports b))
      then add_supports (b\<lparr>supports := supports b @ [s]\<rparr>) rest
      else (Raise ValueError, b))"

lemma length_obj_remove: "length (obj_remove x xs) \<le> length xs"
  by (induction xs) auto

text \<open>Lines 579-581 iterate over \<^verbatim>\<open>self._supports\<close> while removing from it. A list iterator
  is an index into the list as it is at each step: \<open>i\<close> is that index.\<close>

function remove_supports_loop ::
  "nat \<Rightarrow> support obj list \<Rightarrow> support obj list \<Rightarrow> support obj list" where
  "remove_supports_loop i ss given =
     (if i < length ss then
        (if obj_in (ss ! i) given
         then remove_supports_loop (Suc i) (obj_remove (ss ! i) ss) given
         else remove_supports_loop (Suc i) ss given)
      else ss)"
  by pat_completeness auto
termination
proof (relation "measure (\<lambda>(i, ss, given). length ss - i)")
  show "wf (measure (\<lambda>(i, ss, given). length ss - i))" by simp
next
  fix i :: nat and ss given :: "support obj list"
  assume "i < length ss"
  moreover have "length (obj_remove (ss ! i) ss) \<le> length ss" by (rule length_obj_remove)
  ultimately show "((Suc i, obj_remove (ss ! i) ss, given), (i, ss, given))
      \<in> measure (\<lambda>(i, ss, given). length ss - i)"
    by simp
next
  fix i :: nat and ss given :: "support obj list"
  assume "i < length ss"
  then show "((Suc i, ss, given), (i, ss, given)) \<in> measure (\<lambda>(i, ss, given). length ss - i)"
    by simp
qed

definition remove_supports :: "beam \<Rightarrow> support obj list \<Rightarrow> bool \<Rightarrow> pyval outcome \<times> beam" where
  "remove_supports b given remove_all =
     (if remove_all then (Return PyNone, b\<lparr>supports := []\<rparr>)
      else (Return PyNone, b\<lparr>supports := remove_supports_loop 0 (supports b) given\<rparr>))"

declare remove_supports_loop.simps [simp del]

subsection \<open>\<^verbatim>\<open>analyse\<close> (lines 640-907)\<close>

text \<open>The unknowns are sympy symbols named after the direction and the position of the
  support, \<^verbatim>\<open>symbols("y_" + str(a._position))\<close>, and the two integration constants.\<close>

datatype symbol = sym_x real | sym_y real | sym_m real | C1 | C2

text \<open>A dictionary in insertion order: assigning to a key that is present replaces its
  value where it stands. \<open>dict_of\<close> is a dictionary comprehension.\<close>

fun dict_set :: "'k \<Rightarrow> 'v \<Rightarrow> ('k \<times> 'v) list \<Rightarrow> ('k \<times> 'v) list" where
  "dict_set k v [] = [(k, v)]"
| "dict_set k v (kv # d) = (if fst kv = k then (k, v) # d else kv # dict_set k v d)"

definition dict_of :: "('k \<times> 'v) list \<Rightarrow> ('k \<times> 'v) list" where
  "dict_of kvs = foldl (\<lambda>d kv. dict_set (fst kv) (snd kv) d) [] kvs"

definition stiffness_x :: "support \<Rightarrow> num" where
  "stiffness_x a = fst (s_stiffness a)"

definition stiffness_y :: "support \<Rightarrow> num" where
  "stiffness_y a = fst (snd (s_stiffness a))"

definition stiffness_m :: "support \<Rightarrow> num" where
  "stiffness_m a = snd (snd (s_stiffness a))"

text \<open>Lines 646-656: per direction, the supports whose stiffness is not \<^verbatim>\<open>0\<close>, keyed by
  position, each with its symbol and its stiffness.\<close>

definition unknowns_x :: "beam \<Rightarrow> (real \<times> symbol \<times> num) list" where
  "unknowns_x b = dict_of [(s_position (snd a), (sym_x (s_position (snd a)), stiffness_x (snd a))).
                            a \<leftarrow> supports b, stiffness_x (snd a) \<noteq> Num 0]"

definition unknowns_y :: "beam \<Rightarrow> (real \<times> symbol \<times> num) list" where
  "unknowns_y b = dict_of [(s_position (snd a), (sym_y (s_position (snd a)), stiffness_y (snd a))).
                            a \<leftarrow> supports b, stiffness_y (snd a) \<noteq> Num 0]"

definition unknowns_m :: "beam \<Rightarrow> (real \<times> symbol \<times> num) list" where
  "unknowns_m b = dict_of [(s_position (snd a), (sym_m (s_position (snd a)), stiffness_m (snd a))).
                            a \<leftarrow> supports b, stiffness_m (snd a) \<noteq> Num 0]"

text \<open>Lines 660-663.\<close>

definition unknowns_ym :: "beam \<Rightarrow> symbol list" where
  "unknowns_ym b = map (\<lambda>a. fst (snd a)) (unknowns_y b) @ map (\<lambda>a. fst (snd a)) (unknowns_m b)"

definition unknowns_xx :: "beam \<Rightarrow> symbol list" where
  "unknowns_xx b = map (\<lambda>a. fst (snd a)) (unknowns_x b)"

text \<open>Lines 686-690, the two force equilibrium expressions. Each is a sum of expressions
  in \<open>x\<close> taken from the loads plus a sum of reaction symbols, kept as a pair; the
  expression is to vanish. Both lines read the attribute \<^verbatim>\<open>_x\<close> of every load:
  \<^verbatim>\<open>F_Rx = sum([load._x for load in self._loads]) + sum([a[0] for a in unknowns_x.values()])\<close>
  and
  \<^verbatim>\<open>F_Ry = sum([load._x for load in self._loads]) + sum([a[0] for a in unknowns_y.values()])\<close>.\<close>

definition F_Rx :: "beam \<Rightarrow> expr \<times> symbol list" where
  "F_Rx b = (concat [load_x (snd ld). ld \<leftarrow> loads b], map (\<lambda>a. fst (snd a)) (unknowns_x b))"

definition F_Ry :: "beam \<Rightarrow> expr \<times> symbol list" where
  "F_Ry b = (concat [load_x (snd ld). ld \<leftarrow> loads b], map (\<lambda>a. fst (snd a)) (unknowns_y b))"

text \<open>The transverse equilibrium expression as the specification words it: the sum of the
  transverse components \<^verbatim>\<open>_y\<close> of the applied loads plus the transverse reactions.\<close>

definition F_Ry_spec :: "beam \<Rightarrow> expr \<times> symbol list" where
  "F_Ry_spec b = (concat [load_y (snd ld). ld \<leftarrow> loads b], map (\<lambda>a. fst (snd a)) (unknowns_y b))"

text \<open>\<^verbatim>\<open>analyse\<close>. The two restraint checks of lines 670-678 come first. Past them, lines
  682-698 bind local names only (among them \<open>F_Rx\<close> and \<open>F_Ry\<close>). Line 702 then adds up
  \<^verbatim>\<open>self._distributed_forces_x.values()\<close> and line 708 calls \<^verbatim>\<open>self._point_loads_x()\<close>.
  \<^verbatim>\<open>Beam\<close> has no such attribute: the only text of \<^verbatim>\<open>_point_loads_x\<close>, \<^verbatim>\<open>_point_loads_y\<close> and
  \<^verbatim>\<open>_point_torques\<close> is commented out (lines 2075-2126). The call raises \<^verbatim>\<open>AttributeError\<close>
  before any attribute of the beam is assigned (the first assignment is line 868,
  \<^verbatim>\<open>self._reactions = ...\<close>), so the beam is left as it was.\<close>

definition analyse :: "beam \<Rightarrow> pyval outcome \<times> beam" where
  "analyse b =
     (if length (unknowns_xx b) < 1 then (Raise ValueError, b)
      else if length (unknowns_ym b) < 2 then (Raise ValueError, b)
      else (Raise AttributeError, b))"

subsection \<open>\<^verbatim>\<open>get_reaction\<close> (lines 910-955)\<close>

text \<open>\<^verbatim>\<open>direction\<close> is \<^verbatim>\<open>None\<close> or a string; \<^verbatim>\<open>if direction:\<close> is false for \<^verbatim>\<open>None\<close> and for
  the empty string. The message printed when \<^verbatim>\<open>_reactions\<close> is empty changes nothing.\<close>

definition get_reaction :: "beam \<Rightarrow> real \<Rightarrow> string option \<Rightarrow> pyval outcome" where
  "get_reaction b x_coord direction =
     (case assert_positive_number x_coord of Some e \<Rightarrow> Raise e
      | None \<Rightarrow>
        (case reactions b x_coord of None \<Rightarrow> Return PyNone
         | Some (rx, ry, rm) \<Rightarrow>
             if direction \<noteq> None \<and> direction \<noteq> Some []
             then (if direction = Some ''x'' then Return (PyNum rx)
                   else if direction = Some ''y'' then Return (PyNum ry)
                   else if direction = Some ''m'' then Return (PyNum rm)
                   else Raise ValueError)
             else Return (PyList [rx, ry, rm])))"

subsection \<open>\<^verbatim>\<open>add_query_points\<close> and \<^verbatim>\<open>remove_query_points\<close> (lines 1223-1259)\<close>

text \<open>Both methods hand the exception object back with \<^verbatim>\<open>return\<close>; neither raises.\<close>

fun add_query_points :: "beam \<Rightarrow> real list \<Rightarrow> pyval outcome \<times> beam" where
  "add_query_points b [] = (Return PyNone, b)"
| "add_query_points b (x_coord # rest) =
     (if beam_x0 b \<le> x_coord \<and> x_coord \<le> beam_x1 b
      then add_query_points (b\<lparr>query := query b @ [x_coord]\<rparr>) rest
      else (Return (PyErr ValueError), b))"

fun remove_query_points_each :: "beam \<Rightarrow> real list \<Rightarrow> pyval outcome \<times> beam" where
  "remove_query_points_each b [] = (Return PyNone, b)"
| "remove_query_points_each b (x_coord # rest) =
     (if x_coord \<in> set (query b)
      then remove_query_points_each (b\<lparr>query := remove1 x_coord (query b)\<rparr>) rest
      else (Return (PyErr ValueError), b))"

definition remove_query_points :: "beam \<Rightarrow> real list \<Rightarrow> bool \<Rightarrow> pyval outcome \<times> beam" where
  "remove_query_points b x_coords remove_all =
     (if remove_all then (Return PyNone, b\<lparr>query := []\<rparr>)
      else remove_query_points_each b x_coords)"

subsection \<open>Counting restraints\<close>

text \<open>The restrained channels of a beam, per direction: the supports whose stiffness in
  that direction is not \<^verbatim>\<open>0\<close> (rigid, or a spring).\<close>

definition restrained_x :: "beam \<Rightarrow> nat" where
  "restrained_x b = length (filter (\<lambda>a. stiffness_x (snd a) \<noteq> Num 0) (supports b))"

definition restrained_y :: "beam \<Rightarrow> nat" where
  "restrained_y b = length (filter (\<lambda>a. stiffness_y (snd a) \<noteq> Num 0) (supports b))"

definition restrained_m :: "beam \<Rightarrow> nat" where
  "restrained_m b = length (filter (\<lambda>a. stiffness_m (snd a) \<noteq> Num 0) (supports b))"

subsection \<open>The simply supported beam of the specification\<close>

text \<open>\<^verbatim>\<open>Beam(5)\<close>, the pin \<^verbatim>\<open>Support(0, (1,1,0))\<close>, the roller \<^verbatim>\<open>Support(5, (0,1,0))\<close> and the
  load \<^verbatim>\<open>PointLoad(-10, 2.5, 90)\<close>, as the constructors build them (lemmas \<open>Beam_default_5\<close>,
  \<open>Support_pin_0\<close>, \<open>Support_roller_5\<close>, \<open>PointLoad_10\<close>). The objects have the references
  1, 2 and 3.\<close>

definition beam5 :: beam where
  "beam5 = \<lparr> beam_x0 = 0, beam_x1 = 5, loads = [],
              distributed_forces_x = [], distributed_forces_y = [],
              normal_forces = [], shear_forces = [], bending_moments = [],
              query = [], supports = [], reactions = Map.empty,
              beam_E = 2 * 10 ^ 5, beam_I = 905 / 100 * 10 ^ 6, beam_A = 2300 \<rparr>"

definition pin_0 :: support where
  "pin_0 = \<lparr> s_position = 0, s_stiffness = (Oo, Oo, Num 0), s_DOF = (1, 1, 0),
             s_fixed = (1, 1, 0), s_id = None \<rparr>"

definition roller_5 :: support where
  "roller_5 = \<lparr> s_position = 5, s_stiffness = (Num 0, Oo, Num 0), s_DOF = (0, 1, 0),
                s_fixed = (0, 1, 0), s_id = None \<rparr>"

definition point_load_10 :: load where
  "point_load_10 = \<lparr> cls = PointLoad_class, load_x = [],
                     load_y = [(- 10, SingularityFunction (5 / 2) (- 1))] \<rparr>"

text \<open>An axial load, \<^verbatim>\<open>PointLoad(7, 1, 0)\<close> (lemma \<open>PointLoad_7\<close>), as the object 4.\<close>

definition axial_load_7 :: load where
  "axial_load_7 = \<lparr> cls = PointLoad_class,
                    load_x = [(7, SingularityFunction 1 (- 1))], load_y = [] \<rparr>"

definition supported_beam :: beam where
  "supported_beam = beam5\<lparr>supports := [(1, pin_0), (2, roller_5)]\<rparr>"

text \<open>The beam with the load in \<^verbatim>\<open>_loads\<close>.\<close>

definition loaded_beam :: beam where
  "loaded_beam = supported_beam\<lparr>loads := [(3, point_load_10)]\<rparr>"

subsection \<open>The results of an analysis\<close>


subsection \<open>Sequences of calls\<close>




section \<open>Properties\<close>

subsection \<open>Evaluating the constructors\<close>

lemma radians_90: "radians 90 = pi / 2"
  by (simp add: radians_def)

lemma radians_0: "radians 0 = 0"
  by (simp add: radians_def)

lemma py_round_0: "py_round 0 d = 0"
  by (simp add: py_round_def round_half_even_def)

lemma round_half_even_of_int: "round_half_even (of_int n) = n"
  by (simp add: round_half_even_def)

lemma py_round_int: "py_round (of_int n) d = of_int n"
proof -
  have "(of_int n :: real) * 10 ^ d = of_int (n * 10 ^ d)" by simp
  then have "round_half_even (of_int n * 10 ^ d) = n * 10 ^ d"
    by (simp only: round_half_even_of_int)
  then show ?thesis by (simp add: py_round_def)
qed

lemma py_round_1: "py_round 1 d = 1"
  using py_round_int [of 1 d] by simp

lemma Beam_default_5: "Beam_default 5 = Inr beam5"
  by (simp add: Beam_default_def Beam_def assert_strictly_positive_number_def beam5_def)

lemma Support_pin_0: "Support 0 [1, 1, 0] None None = Inr pin_0"
  by (simp add: Support_def assert_positive_number_def dof_of_def fixed_of_def
      map_triple_def pin_0_def)

lemma Support_roller_5: "Support 5 [0, 1, 0] None None = Inr roller_5"
  by (simp add: Support_def assert_positive_number_def dof_of_def fixed_of_def
      map_triple_def roller_5_def)

lemma PointLoad_10: "PointLoad (- 10) (5 / 2) 90 = Inr point_load_10"
proof -
  have "py_round (of_int (- 10)) 5 = of_int (- 10)" by (rule py_round_int)
  then have r: "py_round (- 10) 5 = - 10" by simp
  show ?thesis
    by (simp add: PointLoad_def PointLoad_init_def assert_positive_number_def radians_90
        py_round_0 r point_load_10_def)
qed

lemma PointLoad_7: "PointLoad 7 1 0 = Inr axial_load_7"
proof -
  have "py_round (of_int 7) 5 = of_int 7" by (rule py_round_int)
  then have r: "py_round 7 5 = 7" by simp
  show ?thesis
    by (simp add: PointLoad_def PointLoad_init_def assert_positive_number_def radians_0
        py_round_0 r axial_load_7_def)
qed

lemma add_supports_scenario:
  "add_supports beam5 [(1, pin_0), (2, roller_5)] = (Return PyNone, supported_beam)"
  by (simp add: beam5_def pin_0_def roller_5_def supported_beam_def)

subsection \<open>The transverse equilibrium expression\<close>

text \<open>
  C1. The transverse equilibrium expression that \<^verbatim>\<open>analyse\<close> assembles should sum the
  transverse component of every applied load and the transverse reaction unknowns. At
  the simply supported beam with the load \<^verbatim>\<open>PointLoad(-10, 2.5, 90)\<close> the expression
  \<open>F_Ry\<close> of line 689 is \<open>y_0 + y_5\<close>: its load part is the axial component \<^verbatim>\<open>_x\<close> of the
  load, which is \<open>0\<close>, and the transverse component \<open>-10 * SingularityFunction(x, 2.5, -1)\<close>
  that the specification asks for is absent from it. With the axial load
  \<^verbatim>\<open>PointLoad(7, 1, 0)\<close> on the beam as well, the axial load is what \<open>F_Ry\<close> holds.
\<close>

theorem F_Ry_reads_axial_component:
  "PointLoad (- 10) (5 / 2) 90 = Inr point_load_10
   \<and> PointLoad 7 1 0 = Inr axial_load_7
   \<and> F_Ry loaded_beam = ([], [sym_y 0, sym_y 5])
   \<and> F_Ry loaded_beam = (load_x point_load_10, [sym_y 0, sym_y 5])
   \<and> F_Ry_spec loaded_beam = ([(- 10, SingularityFunction (5 / 2) (- 1))], [sym_y 0, sym_y 5])
   \<and> F_Ry (loaded_beam\<lparr>loads := [(3, point_load_10), (4, axial_load_7)]\<rparr>)
       = ([(7, SingularityFunction 1 (- 1))], [sym_y 0, sym_y 5])
   \<and> F_Ry_spec (loaded_beam\<lparr>loads := [(3, point_load_10), (4, axial_load_7)]\<rparr>)
       = ([(- 10, SingularityFunction (5 / 2) (- 1))], [sym_y 0, sym_y 5])"
  by (simp add: PointLoad_10 PointLoad_7 F_Ry_def F_Ry_spec_def loaded_beam_def
      supported_beam_def beam5_def unknowns_y_def dict_of_def stiffness_y_def pin_0_def
      roller_5_def point_load_10_def axial_load_7_def)

subsection \<open>The simply supported beam\<close>

text \<open>
  C2. For \<^verbatim>\<open>Beam(5)\<close> with a pin at 0, a roller at 5 and \<^verbatim>\<open>PointLoad(-10, 2.5, 90)\<close>, the
  specification expects \<^verbatim>\<open>analyse()\<close> to succeed with the reactions (0, 5, 0) at both
  supports and a largest bending moment of 12.5. In the code the constructors and
  \<^verbatim>\<open>add_supports\<close> succeed; \<^verbatim>\<open>add_loads\<close> raises \<^verbatim>\<open>TypeError\<close> and leaves the load off the
  beam; \<^verbatim>\<open>analyse\<close> raises \<^verbatim>\<open>AttributeError\<close>, with or without the load in \<^verbatim>\<open>_loads\<close>, and
  leaves the beam as it was: the reaction map stays empty, \<^verbatim>\<open>get_reaction\<close> returns
  \<^verbatim>\<open>None\<close> at both supports and \<^verbatim>\<open>_bending_moments\<close> stays the empty list.
\<close>

theorem scenario_analyse_raises:
  "Beam_default 5 = Inr beam5
   \<and> Support 0 [1, 1, 0] None None = Inr pin_0
   \<and> Support 5 [0, 1, 0] None None = Inr roller_5
   \<and> PointLoad (- 10) (5 / 2) 90 = Inr point_load_10
   \<and> add_supports beam5 [(1, pin_0), (2, roller_5)] = (Return PyNone, supported_beam)
   \<and> add_loads supported_beam [(3, point_load_10)] = (Raise TypeError, supported_beam)
   \<and> analyse supported_beam = (Raise AttributeError, supported_beam)
   \<and> analyse loaded_beam = (Raise AttributeError, loaded_beam)
   \<and> reactions loaded_beam = Map.empty
   \<and> get_reaction loaded_beam 0 None = Return PyNone
   \<and> get_reaction loaded_beam 5 None = Return PyNone
   \<and> bending_moments loaded_beam = []"
proof -
  have l: "add_loads supported_beam [(3, point_load_10)] = (Raise TypeError, supported_beam)"
    by (simp add: point_load_10_def is_distributed_def is_point_def)
  have a1: "analyse supported_beam = (Raise AttributeError, supported_beam)"
    by (simp add: analyse_def unknowns_xx_def unknowns_ym_def unknowns_x_def unknowns_y_def
        unknowns_m_def dict_of_def stiffness_x_def stiffness_y_def stiffness_m_def
        supported_beam_def beam5_def pin_0_def roller_5_def)
  have a2: "analyse loaded_beam = (Raise AttributeError, loaded_beam)"
    by (simp add: analyse_def unknowns_xx_def unknowns_ym_def unknowns_x_def unknowns_y_def
        unknowns_m_def dict_of_def stiffness_x_def stiffness_y_def stiffness_m_def
        loaded_beam_def supported_beam_def beam5_def pin_0_def roller_5_def)
  have g: "reactions loaded_beam = Map.empty \<and> get_reaction loaded_beam 0 None = Return PyNone
      \<and> get_reaction loaded_beam 5 None = Return PyNone \<and> bending_moments loaded_beam = []"
    by (simp add: get_reaction_def assert_positive_number_def loaded_beam_def
        supported_beam_def beam5_def)
  show ?thesis
    by (simp only: l a1 a2 g Beam_default_5 Support_pin_0 Support_roller_5 PointLoad_10
        add_supports_scenario simp_thms)
qed

subsection \<open>The restraint checks of \<^verbatim>\<open>analyse\<close>\<close>

lemma dict_set_fresh: "k \<notin> fst ` set d \<Longrightarrow> dict_set k v d = d @ [(k, v)]"
  by (induction d) auto

lemma foldl_dict_set_distinct:
  "distinct (map fst (d @ kvs)) \<Longrightarrow>
   foldl (\<lambda>d kv. dict_set (fst kv) (snd kv) d) d kvs = d @ kvs"
proof (induction kvs arbitrary: d)
  case Nil
  then show ?case by simp
next
  case (Cons kv kvs)
  from Cons.prems have fresh: "fst kv \<notin> fst ` set d" by auto
  from Cons.prems have "distinct (map fst ((d @ [kv]) @ kvs))" by simp
  from Cons.IH [OF this] fresh show ?case
    by (simp add: dict_set_fresh)
qed

lemma dict_of_distinct: "distinct (map fst kvs) \<Longrightarrow> dict_of kvs = kvs"
  using foldl_dict_set_distinct [of "[]" kvs] by (simp add: dict_of_def)

lemma comprehension_map_filter: "[f a. a \<leftarrow> xs, P a] = map f (filter P xs)"
  by (induction xs) auto

lemma length_unknowns:
  assumes "distinct (map (\<lambda>a. s_position (snd a)) ss)"
  shows "length (dict_of [(s_position (snd a), g a). a \<leftarrow> ss, P a]) = length (filter P ss)"
proof -
  have "distinct (map (\<lambda>a. s_position (snd a)) (filter P ss))"
    using assms by (rule distinct_map_filter)
  then have "distinct (map fst (map (\<lambda>a. (s_position (snd a), g a)) (filter P ss)))"
    by (simp add: comp_def)
  then show ?thesis
    by (simp add: comprehension_map_filter dict_of_distinct)
qed

text \<open>
  C6. On a beam whose supports stand at pairwise distinct positions (what \<^verbatim>\<open>add_supports\<close>
  maintains), \<^verbatim>\<open>analyse\<close> raises the \<^verbatim>\<open>ValueError\<close> of its restraint checks exactly when
  fewer than one axial channel is restrained or fewer than two transverse and rotational
  channels together, and it raises it before anything is solved or stored: the beam is
  left unchanged. When both counts suffice, the error it raises is not this one.
\<close>

theorem analyse_determinacy_errors:
  assumes "distinct (map (\<lambda>a. s_position (snd a)) (supports b))"
  shows "(fst (analyse b) = Raise ValueError
            \<longleftrightarrow> restrained_x b < 1 \<or> restrained_y b + restrained_m b < 2)
         \<and> snd (analyse b) = b"
proof -
  have x: "length (unknowns_xx b) = restrained_x b"
    using assms by (simp add: unknowns_xx_def unknowns_x_def restrained_x_def length_unknowns)
  have ym: "length (unknowns_ym b) = restrained_y b + restrained_m b"
    using assms
    by (simp add: unknowns_ym_def unknowns_y_def unknowns_m_def restrained_y_def
        restrained_m_def length_unknowns)
  show ?thesis
    by (simp add: analyse_def x ym)
qed

theorem analyse_determinacy_errors_witness:
  "distinct (map (\<lambda>a. s_position (snd a)) (supports supported_beam))
   \<and> restrained_x supported_beam = 1
   \<and> restrained_y supported_beam + restrained_m supported_beam = 2
   \<and> fst (analyse supported_beam) \<noteq> Raise ValueError
   \<and> restrained_x (beam5\<lparr>supports := [(2, roller_5)]\<rparr>) = 0
   \<and> fst (analyse (beam5\<lparr>supports := [(2, roller_5)]\<rparr>)) = Raise ValueError
   \<and> snd (analyse (beam5\<lparr>supports := [(2, roller_5)]\<rparr>)) = beam5\<lparr>supports := [(2, roller_5)]\<rparr>"
proof -
  have d1: "distinct (map (\<lambda>a. s_position (snd a)) (supports supported_beam))"
    by (simp add: supported_beam_def pin_0_def roller_5_def)
  have d2: "distinct (map (\<lambda>a. s_position (snd a)) (supports (beam5\<lparr>supports := [(2, roller_5)]\<rparr>)))"
    by simp
  have c1: "restrained_x supported_beam = 1
      \<and> restrained_y supported_beam + restrained_m supported_beam = 2"
    by (simp add: restrained_x_def restrained_y_def restrained_m_def stiffness_x_def
        stiffness_y_def stiffness_m_def supported_beam_def pin_0_def roller_5_def)
  have c2: "restrained_x (beam5\<lparr>supports := [(2, roller_5)]\<rparr>) = 0"
    by (simp add: restrained_x_def stiffness_x_def roller_5_def)
  from analyse_determinacy_errors [OF d1] analyse_determinacy_errors [OF d2] d1 c1 c2
  show ?thesis by simp
qed

subsection \<open>Query points\<close>

lemma add_query_points_never_raises: "fst (add_query_points b xs) \<noteq> Raise e"
  by (induction xs arbitrary: b) auto

lemma remove_query_points_each_never_raises: "fst (remove_query_points_each b xs) \<noteq> Raise e"
  by (induction xs arbitrary: b) auto

lemma add_query_points_in_range:
  "list_all (\<lambda>x. beam_x0 b \<le> x \<and> x \<le> beam_x1 b) pre \<Longrightarrow>
   add_query_points b (pre @ rest) = add_query_points (b\<lparr>query := query b @ pre\<rparr>) rest"
  by (induction pre arbitrary: b) auto

lemma remove_query_points_each_append:
  "remove_query_points_each b pre = (Return PyNone, b') \<Longrightarrow>
   remove_query_points_each b (pre @ rest) = remove_query_points_each b' rest"
  by (induction pre arbitrary: b) (auto split: if_splits)

lemma remove_query_points_each_query:
  "remove_query_points_each b pre = (Return PyNone, b') \<Longrightarrow>
   b' = b\<lparr>query := foldl (\<lambda>q x. remove1 x q) (query b) pre\<rparr>"
proof (induction pre arbitrary: b)
  case Nil
  then show ?case by simp
next
  case (Cons x pre)
  from Cons.prems have found: "x \<in> set (query b)"
    by (simp split: if_splits)
  with Cons.prems have "remove_query_points_each (b\<lparr>query := remove1 x (query b)\<rparr>) pre
      = (Return PyNone, b')"
    by simp
  from Cons.IH [OF this] show ?case by simp
qed

text \<open>
  C10. Neither \<^verbatim>\<open>add_query_points\<close> nor \<^verbatim>\<open>remove_query_points\<close> ever raises. When the
  coordinates \<open>pre\<close> all lie in \<open>[x0, x1]\<close> and \<open>bad\<close> does not, \<^verbatim>\<open>add_query_points\<close> called
  with \<open>pre\<close>, \<open>bad\<close>, \<open>post\<close> returns a \<^verbatim>\<open>ValueError\<close> object, has appended exactly \<open>pre\<close>
  (in order, duplicates included) and has skipped \<open>bad\<close> and \<open>post\<close>. When removing \<open>pre\<close>
  goes through and leaves the beam \<open>b'\<close>, whose query list does not hold \<open>bad\<close>,
  \<^verbatim>\<open>remove_query_points\<close> called with \<open>pre\<close>, \<open>bad\<close>, \<open>post\<close> returns a \<^verbatim>\<open>ValueError\<close> object and
  leaves \<open>b'\<close>: \<open>post\<close> is skipped.
\<close>

theorem query_points_error_is_returned:
  "(\<forall>e. fst (add_query_points b xs) \<noteq> Raise e)
   \<and> (\<forall>e. fst (remove_query_points b xs remove_all) \<noteq> Raise e)
   \<and> ((\<forall>x\<in>set pre. beam_x0 b \<le> x \<and> x \<le> beam_x1 b) \<and> \<not> (beam_x0 b \<le> bad \<and> bad \<le> beam_x1 b)
        \<longrightarrow> add_query_points b (pre @ bad # post)
              = (Return (PyErr ValueError), b\<lparr>query := query b @ pre\<rparr>))
   \<and> (remove_query_points_each b pre = (Return PyNone, b') \<and> bad \<notin> set (query b')
        \<longrightarrow> remove_query_points b (pre @ bad # post) False = (Return (PyErr ValueError), b'))"
proof (intro conjI allI impI)
  fix e show "fst (add_query_points b xs) \<noteq> Raise e"
    by (rule add_query_points_never_raises)
next
  fix e show "fst (remove_query_points b xs remove_all) \<noteq> Raise e"
    by (simp add: remove_query_points_def remove_query_points_each_never_raises)
next
  assume h: "(\<forall>x\<in>set pre. beam_x0 b \<le> x \<and> x \<le> beam_x1 b) \<and> \<not> (beam_x0 b \<le> bad \<and> bad \<le> beam_x1 b)"
  then have "list_all (\<lambda>x. beam_x0 b \<le> x \<and> x \<le> beam_x1 b) pre"
    by (simp add: list_all_iff)
  then have "add_query_points b (pre @ bad # post)
      = add_query_points (b\<lparr>query := query b @ pre\<rparr>) (bad # post)"
    by (rule add_query_points_in_range)
  with h show "add_query_points b (pre @ bad # post)
      = (Return (PyErr ValueError), b\<lparr>query := query b @ pre\<rparr>)"
    by auto
next
  assume h: "remove_query_points_each b pre = (Return PyNone, b') \<and> bad \<notin> set (query b')"
  then have "remove_query_points_each b (pre @ bad # post) = remove_query_points_each b' (bad # post)"
    by (simp add: remove_query_points_each_append)
  with h show "remove_query_points b (pre @ bad # post) False = (Return (PyErr ValueError), b')"
    by (simp add: remove_query_points_def)
qed

theorem query_points_error_is_returned_witness:
  "add_query_points beam5 [1, 1, 7, 2] = (Return (PyErr ValueError), beam5\<lparr>query := [1, 1]\<rparr>)
   \<and> remove_query_points (beam5\<lparr>query := [1, 2, 1]\<rparr>) [1, 3, 2] False
       = (Return (PyErr ValueError), beam5\<lparr>query := [2, 1]\<rparr>)"
proof -
  have a: "add_query_points beam5 ([1, 1] @ 7 # [2])
      = (Return (PyErr ValueError), beam5\<lparr>query := query beam5 @ [1, 1]\<rparr>)"
    using query_points_error_is_returned
      [where b = beam5 and xs = "[]" and remove_all = False and pre = "[1, 1]" and bad = 7
        and post = "[2]" and b' = beam5]
    by (simp add: beam5_def)
  have r: "remove_query_points (beam5\<lparr>query := [1, 2, 1]\<rparr>) ([1] @ 3 # [2]) False
      = (Return (PyErr ValueError), beam5\<lparr>query := [2, 1]\<rparr>)"
    using query_points_error_is_returned
      [where b = "beam5\<lparr>query := [1, 2, 1]\<rparr>" and xs = "[]" and remove_all = False
        and pre = "[1]" and bad = 3 and post = "[2]" and b' = "beam5\<lparr>query := [2, 1]\<rparr>"]
    by (simp add: beam5_def)
  from a r show ?thesis by (simp add: beam5_def)
qed

subsection \<open>Mutators and the results of an analysis\<close>














subsection \<open>A uniform load and a trapezoidal load with equal ends (loading.py)\<close>

lemma UDL_validation_equals_TrapezoidalLoad:
  "isl (loading_UDL q sp angle) = isl (loading_TrapezoidalLoad (q, q) sp angle)"
  by (simp add: loading_UDL_def loading_TrapezoidalLoad_def Let_def split: option.splits)

text \<open>
  C4. For every magnitude \<open>q\<close>, every span \<open>(a, b)\<close> with \<open>0 \<le> a < b\<close> and every angle, both
  \<^verbatim>\<open>UDL(q, (a,b), angle)\<close> and \<^verbatim>\<open>TrapezoidalLoad((q,q), (a,b), angle)\<close> are constructed, and
  the two objects hold the same expression \<^verbatim>\<open>expr\<close> (the trapezoid has no ramp term), the
  same intensities \<^verbatim>\<open>_x0\<close> and \<^verbatim>\<open>_y0\<close>, the same antiderivatives \<^verbatim>\<open>_x1\<close> and \<^verbatim>\<open>_y1\<close> and the
  same moment about zero \<^verbatim>\<open>_m0\<close>.
\<close>

theorem UDL_equals_flat_TrapezoidalLoad:
  assumes "0 \<le> a" and "a < b"
  shows "\<exists>u t e. loading_UDL q (a, b) angle = Inr u
           \<and> loading_TrapezoidalLoad (q, q) (a, b) angle = Inr t
           \<and> load_attrs u = UDL_attrs e (a, b) q angle
           \<and> load_attrs t = TrapezoidalLoad_attrs e (a, b) (q, q) angle
           \<and> load_x0 u = load_x0 t \<and> load_y0 u = load_y0 t
           \<and> load_x1 u = load_x1 t \<and> load_y1 u = load_y1 t
           \<and> load_m0 u = load_m0 t"
proof -
  from assms have ok: "check_span (a, b) = None"
    by (simp add: check_span_def assert_positive_number_def assert_strictly_positive_number_def)
  show ?thesis
    by (simp add: loading_UDL_def loading_TrapezoidalLoad_def ok make_load_def Let_def
        split: prod.splits)
qed

theorem UDL_equals_flat_TrapezoidalLoad_witness:
  "(0::real) \<le> 1 \<and> (1::real) < 4
   \<and> map_sum id load_y0 (loading_UDL 3 (1, 4) 90)
       = Inr [(3, SingularityFunction 1 0), (- 3, SingularityFunction 4 0)]
   \<and> map_sum id load_y0 (loading_TrapezoidalLoad (3, 3) (1, 4) 90)
       = Inr [(3, SingularityFunction 1 0), (- 3, SingularityFunction 4 0)]
   \<and> map_sum id load_m0 (loading_UDL 3 (1, 4) 90) = Inr (45 / 2)
   \<and> map_sum id load_m0 (loading_TrapezoidalLoad (3, 3) (1, 4) 90) = Inr (45 / 2)"
proof -
  have h: "(0::real) \<le> 1" "(1::real) < 4" by simp_all
  from UDL_equals_flat_TrapezoidalLoad [OF h, of 3 90]
  obtain u t e where
    u: "loading_UDL 3 (1, 4) 90 = Inr u" and
    t: "loading_TrapezoidalLoad (3, 3) (1, 4) 90 = Inr t" and
    y: "load_y0 u = load_y0 t" and m: "load_m0 u = load_m0 t"
    by blast
  have uy: "map_sum id load_y0 (loading_UDL 3 (1, 4) 90)
      = Inr [(3, SingularityFunction 1 0), (- 3, SingularityFunction 4 0)]"
    by (simp add: loading_UDL_def check_span_def assert_positive_number_def
        assert_strictly_positive_number_def make_load_def add_load_functions_def
        radians_90 py_round_0 py_round_1 scale_def Let_def)
  have um: "map_sum id load_m0 (loading_UDL 3 (1, 4) 90) = Inr (45 / 2)"
    by (simp add: loading_UDL_def check_span_def assert_positive_number_def
        assert_strictly_positive_number_def make_load_def add_load_functions_def
        radians_90 Let_def split: prod.splits)
  from uy um u t y m show ?thesis by simp
qed

subsection \<open>The moment about zero (loading.py)\<close>

text \<open>\<open>poly_integrate\<close> is an antiderivative, so \<open>poly_definite p lo hi\<close> is the integral
  of \<open>p\<close> from \<open>lo\<close> to \<open>hi\<close>.\<close>

lemma poly_integrate_from_deriv:
  "((\<lambda>t. t ^ Suc k * poly_eval (poly_integrate_from k p) t)
      has_real_derivative t ^ k * poly_eval p t) (at t)"
proof (induction p arbitrary: k)
  case Nil
  show ?case by simp
next
  case (Cons c cs)
  have eq: "(\<lambda>t. t ^ Suc k * poly_eval (poly_integrate_from k (c # cs)) t)
      = (\<lambda>t. c / (of_nat k + 1) * t ^ Suc k
              + t ^ Suc (Suc k) * poly_eval (poly_integrate_from (Suc k) cs) t)"
    by (rule ext) (simp add: algebra_simps)
  have "((\<lambda>t. t ^ Suc k) has_real_derivative of_nat (Suc k) * t ^ k) (at t)"
    using DERIV_pow [of "Suc k" t] by simp
  then have "((\<lambda>t. c / (of_nat k + 1) * t ^ Suc k)
      has_real_derivative c / (of_nat k + 1) * (of_nat (Suc k) * t ^ k)) (at t)"
    by (rule DERIV_cmult)
  moreover have "c / (of_nat k + 1) * (of_nat (Suc k) * t ^ k) = c * t ^ k"
    by (simp add: field_simps)
  ultimately have d1:
    "((\<lambda>t. c / (of_nat k + 1) * t ^ Suc k) has_real_derivative c * t ^ k) (at t)"
    by simp
  from DERIV_add [OF d1 Cons.IH [of "Suc k"]] show ?case
    unfolding eq by (simp add: algebra_simps)
qed

lemma poly_integrate_deriv:
  "((\<lambda>t. poly_eval (poly_integrate p) t) has_real_derivative poly_eval p t) (at t)"
  using poly_integrate_from_deriv [of 0 p t] by (simp add: poly_integrate_def)

lemma scale_expr_of_poly_from:
  "scale k (expr_of_poly_from n p) = expr_of_poly_from n (poly_scale k p)"
  by (induction p arbitrary: n) (simp_all add: scale_def poly_scale_def)

text \<open>The polynomial that \<^verbatim>\<open>_m0\<close> of a \<^verbatim>\<open>DistributedLoad\<close> integrates is its \<^verbatim>\<open>_y0\<close>.\<close>

lemma DistributedLoad_y0:
  assumes "loading_DistributedLoad p sp angle = Inr d"
  shows "load_y0 d = expr_of_poly (if \<bar>py_round (sin (radians angle)) 8\<bar> > 0
                                    then poly_scale (sin (radians angle)) p else [])
         \<and> load_m0 d = poly_definite (poly_mul_x
               (if \<bar>py_round (sin (radians angle)) 8\<bar> > 0
                then poly_scale (sin (radians angle)) p else [])) 0 (snd sp)"
  using assms
  by (auto simp: loading_DistributedLoad_def make_load_def add_load_functions_def Let_def
      expr_of_poly_def scale_expr_of_poly_from split: option.splits)

lemma poly_definite_linear: "poly_definite (poly_mul_x [c]) lo hi = c * (hi\<^sup>2 - lo\<^sup>2) / 2"
  by (simp add: poly_definite_def poly_mul_x_def poly_integrate_def power2_eq_square algebra_simps)

text \<open>For \<^verbatim>\<open>UDL\<close> and \<^verbatim>\<open>TrapezoidalLoad\<close> the closed form of \<^verbatim>\<open>_m0\<close> is the integral of
  \<open>w_y(x) * x\<close> over the span \<open>[a, b]\<close> of the load.\<close>

lemma UDL_m0_is_span_integral:
  assumes "loading_UDL q (a, b) angle = Inr u"
  shows "load_m0 u = poly_definite (poly_mul_x (poly_scale (sin (radians angle)) [q])) a b"
proof -
  from assms have m: "load_m0 u = q * (b - a) * (a + (b - a) / 2) * sin (radians angle)"
    by (auto simp: loading_UDL_def make_load_def Let_def split: option.splits prod.splits)
  show ?thesis
    unfolding m
    by (simp add: poly_scale_def poly_definite_linear power2_eq_square field_simps)
qed

lemma TrapezoidalLoad_m0_is_span_integral:
  assumes "loading_TrapezoidalLoad (qa, qb) (a, b) angle = Inr t"
  shows "load_m0 t = poly_definite (poly_mul_x (poly_scale (sin (radians angle))
                       [qa - (qb - qa) / (b - a) * a, (qb - qa) / (b - a)])) a b"
proof -
  define k where "k = (qb - qa) / (b - a)"
  define s where "s = sin (radians angle)"
  from assms have ab: "a < b"
    by (auto simp: loading_TrapezoidalLoad_def check_span_def assert_strictly_positive_number_def
        split: option.splits if_splits)
  then have dq: "qb - qa = k * (b - a)" by (simp add: k_def)
  from assms have "load_m0 t = ((qa * (b - a)) * (a + (b - a) / 2)
      + ((qb - qa) * (b - a) / 2) * (a + (b - a) * 2 / 3)) * sin (radians angle)"
    by (auto simp: loading_TrapezoidalLoad_def make_load_def Let_def
        split: option.splits prod.splits)
  then have m: "load_m0 t = ((qa * (b - a)) * (a + (b - a) / 2)
      + ((k * (b - a)) * (b - a) / 2) * (a + (b - a) * 2 / 3)) * s"
    by (simp only: dq s_def)
  have "poly_definite (poly_mul_x (poly_scale s [qa - k * a, k])) a b
      = ((qa * (b - a)) * (a + (b - a) / 2)
          + ((k * (b - a)) * (b - a) / 2) * (a + (b - a) * 2 / 3)) * s"
    by (simp add: poly_scale_def poly_definite_def poly_mul_x_def poly_integrate_def
        field_simps)
  with m show ?thesis by (simp add: k_def s_def)
qed

text \<open>
  C5. \<^verbatim>\<open>_m0\<close> should be the integral of \<open>w_y(x) * x\<close> over the span of the load. For
  \<^verbatim>\<open>DistributedLoad("1", (1, 2), 90)\<close> the transverse intensity is \<open>1\<close> and that integral,
  taken over \<open>[1, 2]\<close>, is \<open>3/2\<close>. Line 319 integrates from \<open>0\<close> to \<^verbatim>\<open>span[1]\<close> instead, and
  the object holds \<^verbatim>\<open>_m0 = 2\<close>.
\<close>

theorem DistributedLoad_m0_integrates_from_zero:
  "map_sum id load_m0 (loading_DistributedLoad [1] (1, 2) 90) = Inr 2
   \<and> m0_spec_DistributedLoad [1] (1, 2) 90 = 3 / 2
   \<and> map_sum id load_y0 (loading_DistributedLoad [1] (1, 2) 90) = Inr [(1, XPow 0)]"
  by (simp add: loading_DistributedLoad_def m0_spec_DistributedLoad_def check_span_def
      assert_positive_number_def assert_strictly_positive_number_def make_load_def
      add_load_functions_def radians_90 py_round_0 py_round_1 scale_def Let_def
      poly_scale_def poly_mul_x_def poly_definite_def poly_integrate_def expr_of_poly_def
      split: prod.splits)

subsection \<open>Placing loads and supports\<close>

lemma load_class_covered: "is_distributed c \<or> is_point c"
  by (cases c) (simp_all add: is_distributed_def is_point_def)

lemma add_loads_raises: "add_loads b (ld # rest) = (Raise TypeError, b)"
  using load_class_covered [of "cls (snd ld)"] by auto

text \<open>\<^verbatim>\<open>add_supports\<close> does what the specification says of it: a support is refused when it
  lies off the beam or at the position of a support already there, and appended
  otherwise; positions stay pairwise distinct.\<close>

lemma add_supports_one:
  "add_supports b [s] =
     (if s_position (snd s) < beam_x0 b \<or> beam_x1 b < s_position (snd s)
         \<or> s_position (snd s) \<in> set (map (\<lambda>x. s_position (snd x)) (supports b))
      then (Raise ValueError, b)
      else (Return PyNone, b\<lparr>supports := supports b @ [s]\<rparr>))"
  by auto

lemma add_supports_keeps_distinct:
  "distinct (map (\<lambda>x. s_position (snd x)) (supports b)) \<Longrightarrow>
   distinct (map (\<lambda>x. s_position (snd x)) (supports (snd (add_supports b ss))))"
  by (induction ss arbitrary: b) auto

text \<open>
  C7. \<^verbatim>\<open>add_loads\<close> should append a load whose position lies within \<open>[0, L]\<close>. The load
  \<^verbatim>\<open>PointLoad(-10, 2.5, 90)\<close> lies on \<^verbatim>\<open>Beam(5)\<close>, and \<^verbatim>\<open>add_loads\<close> raises \<^verbatim>\<open>TypeError\<close> for
  it and leaves \<^verbatim>\<open>_loads\<close> empty.
\<close>

theorem add_loads_rejects_load_on_beam:
  "PointLoad (- 10) (5 / 2) 90 = Inr point_load_10
   \<and> beam_x0 beam5 \<le> 5 / 2 \<and> 5 / 2 \<le> beam_x1 beam5
   \<and> add_loads beam5 [(3, point_load_10)] = (Raise TypeError, beam5)
   \<and> loads (snd (add_loads beam5 [(3, point_load_10)])) = []"
proof -
  have r: "add_loads beam5 [(3, point_load_10)] = (Raise TypeError, beam5)"
    by (rule add_loads_raises)
  have s: "beam_x0 beam5 \<le> 5 / 2 \<and> 5 / 2 \<le> beam_x1 beam5 \<and> loads beam5 = []"
    by (simp add: beam5_def)
  show ?thesis
    using s by (simp only: PointLoad_10 r snd_conv simp_thms)
qed

subsection \<open>Removing loads and supports\<close>

text \<open>Removing what is not on the beam changes nothing and raises nothing.\<close>

lemma remove_supports_loop_no_match:
  "\<not> list_ex (\<lambda>s. obj_in s given) ss \<Longrightarrow> remove_supports_loop i ss given = ss"
proof (induction i ss given rule: remove_supports_loop.induct)
  case (1 i ss given)
  show ?case
  proof (cases "i < length ss")
    case True
    with "1.prems" have n: "\<not> obj_in (ss ! i) given"
      by (auto simp: list_ex_iff)
    with True "1.IH"(2) "1.prems" show ?thesis
      by (simp add: remove_supports_loop.simps [of i ss given])
  next
    case False
    then show ?thesis by (simp add: remove_supports_loop.simps [of i ss given])
  qed
qed

lemma remove_loads_each_no_match:
  "\<not> list_ex (\<lambda>ld. obj_in ld ls) given \<Longrightarrow> remove_loads_each ls given = ls"
  by (induction given arbitrary: ls) auto

text \<open>The loop of \<^verbatim>\<open>remove_supports\<close> steps over the element that follows a removed one:
  asked to remove both supports of the simply supported beam, it removes the first.\<close>

lemma remove_supports_skips_neighbour:
  "remove_supports supported_beam [(1, pin_0), (2, roller_5)] False
     = (Return PyNone, supported_beam\<lparr>supports := [(2, roller_5)]\<rparr>)"
  by (simp add: remove_supports_def remove_supports_loop.simps obj_in_def supported_beam_def)

text \<open>
  C8. Removal should go by content: an object equal in its parameters to an attached one
  should remove it. The pin \<^verbatim>\<open>Support(0, (1,1,0))\<close> is attached as the object 1. Calling
  \<^verbatim>\<open>remove_supports\<close> with a second object of the same content (reference 2) leaves the
  support on the beam, where calling it with the object 1 itself removes it.
  \<^verbatim>\<open>remove_loads\<close> does the same with the load (objects 3 and 4).
\<close>

theorem remove_compares_by_identity:
  "Support 0 [1, 1, 0] None None = Inr pin_0
   \<and> add_supports beam5 [(1, pin_0)] = (Return PyNone, beam5\<lparr>supports := [(1, pin_0)]\<rparr>)
   \<and> remove_supports (beam5\<lparr>supports := [(1, pin_0)]\<rparr>) [(2, pin_0)] False
       = (Return PyNone, beam5\<lparr>supports := [(1, pin_0)]\<rparr>)
   \<and> remove_supports (beam5\<lparr>supports := [(1, pin_0)]\<rparr>) [(1, pin_0)] False
       = (Return PyNone, beam5)
   \<and> remove_loads loaded_beam [(4, point_load_10)] False = (Return PyNone, loaded_beam)
   \<and> remove_loads loaded_beam [(3, point_load_10)] False = (Return PyNone, supported_beam)"
proof -
  have a: "add_supports beam5 [(1, pin_0)] = (Return PyNone, beam5\<lparr>supports := [(1, pin_0)]\<rparr>)"
    by (simp add: beam5_def pin_0_def)
  have r1: "remove_supports (beam5\<lparr>supports := [(1, pin_0)]\<rparr>) [(2, pin_0)] False
       = (Return PyNone, beam5\<lparr>supports := [(1, pin_0)]\<rparr>)"
    by (simp add: remove_supports_def remove_supports_loop.simps obj_in_def)
  have r2: "remove_supports (beam5\<lparr>supports := [(1, pin_0)]\<rparr>) [(1, pin_0)] False
       = (Return PyNone, beam5)"
    by (simp add: remove_supports_def remove_supports_loop.simps obj_in_def beam5_def)
  have l1: "remove_loads loaded_beam [(4, point_load_10)] False = (Return PyNone, loaded_beam)"
    by (simp add: remove_loads_def obj_in_def loaded_beam_def)
  have l2: "remove_loads loaded_beam [(3, point_load_10)] False = (Return PyNone, supported_beam)"
    by (simp add: remove_loads_def obj_in_def loaded_beam_def supported_beam_def beam5_def)
  show ?thesis
    by (simp only: Support_pin_0 a r1 r2 l1 l2 simp_thms)
qed

subsection \<open>Validation in \<^verbatim>\<open>Support\<close>\<close>

lemma check_stiffness_eq:
  "check_stiffness k = (if (\<exists>v. k = Some v \<and> v < 0) then Some ValueError else None)"
  by (cases k) (simp_all add: assert_positive_number_def)

lemma Support_refuses:
  "isl (Support coord fixed kx ky)
     \<longleftrightarrow> coord < 0 \<or> (\<exists>k. kx = Some k \<and> k < 0) \<or> (\<exists>k. ky = Some k \<and> k < 0)
         \<or> (\<exists>a\<in>set fixed. a \<noteq> 0 \<and> a \<noteq> 1) \<or> length fixed \<noteq> 3"
  by (simp add: Support_def assert_positive_number_def check_stiffness_eq list_ex_iff Let_def)

lemma Support_error: "Support coord fixed kx ky = Inl e \<Longrightarrow> e = ValueError"
  by (simp add: Support_def assert_positive_number_def check_stiffness_eq Let_def
      split: if_splits)

lemma Support_kx_zero: "Support coord fixed (Some 0) ky = Support coord fixed None ky"
  by (simp add: Support_def cong: option.case_cong)

lemma Support_ky_zero: "Support coord fixed kx (Some 0) = Support coord fixed kx None"
  by (simp add: Support_def cong: option.case_cong)

text \<open>
  C9 as stated fails: a stiffness of zero is not rejected. \<^verbatim>\<open>Support(0, (1,1,1), kx=0)\<close> is
  constructed, and its axial channel is rigid, as the \<^verbatim>\<open>fixed\<close> tuple says: the \<^verbatim>\<open>kx\<close> is
  ignored.
\<close>

theorem Support_zero_stiffness_accepted:
  "Support 0 [1, 1, 1] (Some 0) None =
     Inr \<lparr> s_position = 0, s_stiffness = (Oo, Oo, Oo), s_DOF = (1, 1, 1),
           s_fixed = (1, 1, 1), s_id = None \<rparr>"
  by (simp add: Support_def assert_positive_number_def dof_of_def fixed_of_def map_triple_def)

text \<open>
  C9, as the code has it. Constructing a \<^verbatim>\<open>Support\<close> fails, with a \<^verbatim>\<open>ValueError\<close> and no
  other error, exactly when the coordinate is negative, or \<^verbatim>\<open>kx\<close> or \<^verbatim>\<open>ky\<close> is a negative
  number, or an entry of \<^verbatim>\<open>fixed\<close> is neither 0 nor 1, or \<^verbatim>\<open>fixed\<close> does not have three
  entries. A \<^verbatim>\<open>kx\<close> or \<^verbatim>\<open>ky\<close> of zero is taken as not given: the constructor does what it
  does for \<^verbatim>\<open>None\<close>.
\<close>

theorem Support_validation:
  "(Support coord fixed kx ky = Inl ValueError
      \<longleftrightarrow> coord < 0 \<or> (\<exists>k. kx = Some k \<and> k < 0) \<or> (\<exists>k. ky = Some k \<and> k < 0)
          \<or> (\<exists>a\<in>set fixed. a \<noteq> 0 \<and> a \<noteq> 1) \<or> length fixed \<noteq> 3)
   \<and> (\<forall>e. Support coord fixed kx ky = Inl e \<longrightarrow> e = ValueError)
   \<and> Support coord fixed (Some 0) ky = Support coord fixed None ky
   \<and> Support coord fixed kx (Some 0) = Support coord fixed kx None"
proof -
  have "Support coord fixed kx ky = Inl ValueError \<longleftrightarrow> isl (Support coord fixed kx ky)"
    using Support_error [of coord fixed kx ky] by (cases "Support coord fixed kx ky") auto
  then show ?thesis
    using Support_error [of coord fixed kx ky]
    by (simp only: Support_refuses Support_kx_zero Support_ky_zero) blast
qed

theorem Support_validation_witness:
  "Support 0 [1, 1, 1] (Some (- 2)) None = Inl ValueError
   \<and> Support 0 [1, 2, 1] None None = Inl ValueError
   \<and> Support 0 [1, 1, 1] (Some 0) None = Support 0 [1, 1, 1] None None
   \<and> Support 0 [1, 1, 1] None None \<noteq> Inl ValueError"
  using Support_validation [of 0 "[1, 1, 1]" "Some (- 2)" None]
    Support_validation [of 0 "[1, 2, 1]" None None]
    Support_validation [of 0 "[1, 1, 1]" None None]
  by simp

end
